theory Spec2Isabelle
  imports Main "HOL-Library.Word" "HOL-Library.Sublist"
begin

section \<open>JavaScript strings and buffers\<close>

text \<open>
  A JavaScript string is a sequence of 16-bit UTF-16 code units; \<open>str\<close> embeds an
  ASCII literal of the source. A \<open>Buffer\<close> is a sequence of bytes.
\<close>

type_synonym code_unit = "16 word"
type_synonym js_string = "code_unit list"
type_synonym buffer = "8 word list"

definition str :: "string \<Rightarrow> js_string" where
  "str s = map of_char s"

abbreviation LF :: code_unit where
  "LF \<equiv> 0x0A"

abbreviation slash :: code_unit where
  "slash \<equiv> 0x2F"

abbreviation dot :: code_unit where
  "dot \<equiv> 0x2E"

text \<open>
  The regular expression class \<^verbatim>\<open>\s\<close> of ECMAScript (without the \<^verbatim>\<open>u\<close> flag it is
  matched against single code units): the WhiteSpace and LineTerminator code points.
\<close>

definition is_space :: "code_unit \<Rightarrow> bool" where
  "is_space c =
     (c = 0x09 \<or> c = 0x0A \<or> c = 0x0B \<or> c = 0x0C \<or> c = 0x0D \<or> c = 0x20 \<or> c = 0xA0
      \<or> c = 0x1680 \<or> (0x2000 \<le> c \<and> c \<le> 0x200A) \<or> c = 0x2028 \<or> c = 0x2029
      \<or> c = 0x202F \<or> c = 0x205F \<or> c = 0x3000 \<or> c = 0xFEFF)"

text \<open>
  \<^verbatim>\<open>const trimIndent = (s: string) => s.replace(/(\n)\s+/g, "$1");\<close>

  The global replace scans from the left: at a line feed that is followed by at least one
  \<^verbatim>\<open>\s\<close> code unit, the line feed and the whole (greedy) run of \<^verbatim>\<open>\s\<close> after it are
  replaced by the line feed alone, and the scan goes on behind the run; any other code
  unit is kept.
\<close>

function trimIndent :: "js_string \<Rightarrow> js_string" where
  "trimIndent [] = []"
| "trimIndent (c # cs) =
     (if c = LF \<and> cs \<noteq> [] \<and> is_space (hd cs)
      then LF # trimIndent (dropWhile is_space cs)
      else c # trimIndent cs)"
  by pat_completeness auto
termination
  by (relation "measure length") (auto simp: less_Suc_eq_le length_dropWhile_le)

text \<open>
  The pattern of \<open>trimIndent\<close> matches somewhere in a string exactly when a line feed is
  immediately followed by a \<^verbatim>\<open>\s\<close> code unit.
\<close>

fun indent_match :: "js_string \<Rightarrow> bool" where
  "indent_match (c # d # cs) = (c = LF \<and> is_space d \<or> indent_match (d # cs))"
| "indent_match [c] = False"
| "indent_match [] = False"

text \<open>
  \<^verbatim>\<open>Buffer.from(string)\<close> encodes the string as UTF-8: a high surrogate followed by a
  low surrogate is one supplementary code point, a surrogate on its own is encoded as
  U+FFFD.
\<close>

definition is_high_surrogate :: "code_unit \<Rightarrow> bool" where
  "is_high_surrogate c = (0xD800 \<le> c \<and> c \<le> 0xDBFF)"

definition is_low_surrogate :: "code_unit \<Rightarrow> bool" where
  "is_low_surrogate c = (0xDC00 \<le> c \<and> c \<le> 0xDFFF)"

definition surrogate_pair :: "code_unit \<Rightarrow> code_unit \<Rightarrow> nat" where
  "surrogate_pair hi lo = 0x10000 + (unat hi - 0xD800) * 0x400 + (unat lo - 0xDC00)"

definition utf8_code_point :: "nat \<Rightarrow> buffer" where
  "utf8_code_point cp =
     (if cp < 0x80 then [of_nat cp]
      else if cp < 0x800 then [of_nat (0xC0 + cp div 0x40), of_nat (0x80 + cp mod 0x40)]
      else if cp < 0x10000 then
        [of_nat (0xE0 + cp div 0x1000), of_nat (0x80 + cp div 0x40 mod 0x40),
         of_nat (0x80 + cp mod 0x40)]
      else
        [of_nat (0xF0 + cp div 0x40000), of_nat (0x80 + cp div 0x1000 mod 0x40),
         of_nat (0x80 + cp div 0x40 mod 0x40), of_nat (0x80 + cp mod 0x40)])"

function Buffer_from :: "js_string \<Rightarrow> buffer" where
  "Buffer_from [] = []"
| "Buffer_from (c # cs) =
     (if is_high_surrogate c \<and> cs \<noteq> [] \<and> is_low_surrogate (hd cs)
      then utf8_code_point (surrogate_pair c (hd cs)) @ Buffer_from (tl cs)
      else utf8_code_point
             (if is_high_surrogate c \<or> is_low_surrogate c then 0xFFFD else unat c)
           @ Buffer_from cs)"
  by pat_completeness auto
termination
  by (relation "measure length") auto

section \<open>The path module of the platform\<close>

text \<open>
  \<^verbatim>\<open>import { relative, sep } from "path";\<close>

  The two imports are taken from the platform: \<open>sep\<close> is one code unit (\<^verbatim>\<open>/\<close> on
  POSIX, \<^verbatim>\<open>\\<close> on Windows) and \<open>relative\<close> maps two strings to a string.
\<close>

record path_module =
  relative :: "js_string \<Rightarrow> js_string \<Rightarrow> js_string"
  sep :: code_unit

text \<open>\<^verbatim>\<open>s.split(sep)\<close> for a one-unit separator, and \<^verbatim>\<open>parts.join(glue)\<close>.\<close>

fun js_split :: "code_unit \<Rightarrow> js_string \<Rightarrow> js_string list" where
  "js_split s [] = [[]]"
| "js_split s (c # cs) =
     (if c = s then [] # js_split s cs
      else (case js_split s cs of
              [] \<Rightarrow> [[c]]
            | w # ws \<Rightarrow> (c # w) # ws))"

fun js_join :: "js_string \<Rightarrow> js_string list \<Rightarrow> js_string" where
  "js_join glue [] = []"
| "js_join glue [w] = w"
| "js_join glue (w # v # ws) = w @ glue @ js_join glue (v # ws)"

subsection \<open>The POSIX implementation of Node.js\<close>

text \<open>
  The POSIX variant of the module, after \<^verbatim>\<open>lib/path.js\<close> of Node.js:
  \<^verbatim>\<open>normalizeString\<close>, \<^verbatim>\<open>posix.resolve\<close> with one argument (as \<^verbatim>\<open>relative\<close> calls
  it) and \<^verbatim>\<open>posix.relative\<close>. The working directory \<^verbatim>\<open>process.cwd()\<close> is a
  parameter.
\<close>

record norm_state =
  res :: js_string
  lastSegmentLength :: int
  lastSlash :: int
  dots :: int
  code :: code_unit

definition lastIndexOf :: "js_string \<Rightarrow> code_unit \<Rightarrow> int" where
  "lastIndexOf s c =
     (if c \<in> set s then int (length s) - 1 - int (length (takeWhile (\<lambda>x. x \<noteq> c) (rev s)))
      else - 1)"

definition js_slice :: "js_string \<Rightarrow> int \<Rightarrow> int \<Rightarrow> js_string" where
  "js_slice s a b = take (nat (b - a)) (drop (nat a) s)"

definition end_segment :: "int \<Rightarrow> norm_state \<Rightarrow> norm_state" where
  "end_segment i st = st\<lparr>lastSlash := i, dots := 0\<rparr>"

definition above_root :: "bool \<Rightarrow> int \<Rightarrow> norm_state \<Rightarrow> norm_state" where
  "above_root allowAboveRoot i st =
     (if allowAboveRoot
      then end_segment i
             (st\<lparr>res := (if res st \<noteq> [] then res st @ str ''/..'' else str ''..''),
                 lastSegmentLength := 2\<rparr>)
      else end_segment i st)"

definition on_separator :: "bool \<Rightarrow> js_string \<Rightarrow> int \<Rightarrow> norm_state \<Rightarrow> norm_state" where
  "on_separator allowAboveRoot path i st =
     (if lastSlash st = i - 1 \<or> dots st = 1 then end_segment i st
      else if dots st = 2 then
        (if length (res st) < 2 \<or> lastSegmentLength st \<noteq> 2
            \<or> res st ! (length (res st) - 1) \<noteq> dot
            \<or> res st ! (length (res st) - 2) \<noteq> dot
         then
           (if length (res st) > 2 then
              (let lastSlashIndex = lastIndexOf (res st) slash in
               if lastSlashIndex = - 1
               then end_segment i (st\<lparr>res := [], lastSegmentLength := 0\<rparr>)
               else
                 (let r = js_slice (res st) 0 lastSlashIndex in
                  end_segment i
                    (st\<lparr>res := r,
                        lastSegmentLength := int (length r) - 1 - lastIndexOf r slash\<rparr>)))
            else if res st \<noteq> []
            then end_segment i (st\<lparr>res := [], lastSegmentLength := 0\<rparr>)
            else above_root allowAboveRoot i st)
         else above_root allowAboveRoot i st)
      else
        end_segment i
          (st\<lparr>res := (if res st \<noteq> []
                      then res st @ [slash] @ js_slice path (lastSlash st + 1) i
                      else js_slice path (lastSlash st + 1) i),
              lastSegmentLength := i - lastSlash st - 1\<rparr>))"

definition normalize_body :: "bool \<Rightarrow> js_string \<Rightarrow> int \<Rightarrow> norm_state \<Rightarrow> norm_state" where
  "normalize_body allowAboveRoot path i st =
     (if code st = slash then on_separator allowAboveRoot path i st
      else if code st = dot \<and> dots st \<noteq> - 1 then st\<lparr>dots := dots st + 1\<rparr>
      else st\<lparr>dots := - 1\<rparr>)"

function normalizeString_loop ::
  "bool \<Rightarrow> js_string \<Rightarrow> nat \<Rightarrow> norm_state \<Rightarrow> js_string" where
  "normalizeString_loop allowAboveRoot path i st =
     (if length path < i then res st
      else if i < length path
      then normalizeString_loop allowAboveRoot path (Suc i)
             (normalize_body allowAboveRoot path (int i) (st\<lparr>code := path ! i\<rparr>))
      else if code st = slash then res st
      else normalizeString_loop allowAboveRoot path (Suc i)
             (normalize_body allowAboveRoot path (int i) (st\<lparr>code := slash\<rparr>)))"
  by pat_completeness auto
termination
  by (relation "measure (\<lambda>(a, p, i, st). Suc (length p) - i)") auto

definition normalizeString :: "js_string \<Rightarrow> bool \<Rightarrow> js_string" where
  "normalizeString path allowAboveRoot =
     normalizeString_loop allowAboveRoot path 0
       \<lparr>res = [], lastSegmentLength = 0, lastSlash = - 1, dots = 0, code = 0\<rparr>"

definition posix_resolve :: "js_string \<Rightarrow> js_string \<Rightarrow> js_string" where
  "posix_resolve cwd path =
     (let (resolvedPath, resolvedAbsolute) =
            (if path = [] then ([], False) else (path @ [slash], hd path = slash));
          (resolvedPath, resolvedAbsolute) =
            (if resolvedAbsolute \<or> cwd = [] then (resolvedPath, resolvedAbsolute)
             else (cwd @ [slash] @ resolvedPath, hd cwd = slash));
          normalized = normalizeString resolvedPath (\<not> resolvedAbsolute)
      in if resolvedAbsolute then slash # normalized
         else if normalized \<noteq> [] then normalized
         else str ''.'')"

function common_loop :: "js_string \<Rightarrow> js_string \<Rightarrow> nat \<Rightarrow> nat \<Rightarrow> int \<Rightarrow> nat \<times> int" where
  "common_loop from to len i lastCommonSep =
     (if i < len then
        (if from ! (1 + i) \<noteq> to ! (1 + i) then (i, lastCommonSep)
         else if from ! (1 + i) = slash then common_loop from to len (Suc i) (int i)
         else common_loop from to len (Suc i) lastCommonSep)
      else (i, lastCommonSep))"
  by pat_completeness auto
termination
  by (relation "measure (\<lambda>(f, t, len, i, l). len - i)") auto

function up_loop :: "js_string \<Rightarrow> nat \<Rightarrow> js_string \<Rightarrow> js_string" where
  "up_loop from i out =
     (if i \<le> length from
      then up_loop from (Suc i)
             (if i = length from \<or> from ! i = slash
              then (if out = [] then out @ str ''..'' else out @ str ''/..'')
              else out)
      else out)"
  by pat_completeness auto
termination
  by (relation "measure (\<lambda>(f, i, out). Suc (length f) - i)") auto

datatype flow = Return js_string | Continue int

definition at_common_end :: "js_string \<Rightarrow> js_string \<Rightarrow> nat \<Rightarrow> nat \<Rightarrow> int \<Rightarrow> flow" where
  "at_common_end from to len i lastCommonSep =
     (let fromLen = length from - 1; toLen = length to - 1 in
      if i = len then
        (if toLen > len then
           (if to ! (1 + i) = slash then Return (drop (1 + i + 1) to)
            else if i = 0 then Return (drop (1 + i) to)
            else Continue lastCommonSep)
         else if fromLen > len then
           (if from ! (1 + i) = slash then Continue (int i)
            else if i = 0 then Continue 0
            else Continue lastCommonSep)
         else Continue lastCommonSep)
      else Continue lastCommonSep)"

definition posix_relative :: "js_string \<Rightarrow> js_string \<Rightarrow> js_string \<Rightarrow> js_string" where
  "posix_relative cwd from0 to0 =
     (if from0 = to0 then []
      else
        (let from = posix_resolve cwd from0; to = posix_resolve cwd to0 in
         if from = to then []
         else
           (let fromLen = length from - 1; toLen = length to - 1;
                len = (if fromLen < toLen then fromLen else toLen);
                (i, lastCommonSep) = common_loop from to len 0 (- 1)
            in case at_common_end from to len i lastCommonSep of
                 Return r \<Rightarrow> r
               | Continue lastCommonSep \<Rightarrow>
                   up_loop from (nat (1 + lastCommonSep + 1)) []
                   @ drop (nat (1 + lastCommonSep)) to)))"

definition posix :: "js_string \<Rightarrow> path_module" where
  "posix cwd = \<lparr>relative = posix_relative cwd, sep = slash\<rparr>"

section \<open>The jar builder\<close>

text \<open>
  \<^verbatim>\<open>type JarArgs = { rootPath: string; targetPath: string; groupId: string;
  artifactId: string; version: string }\<close>

  The type of the two paths is a parameter: \<open>jar\<close> is declared on strings, while the
  standalone entry point passes \<^verbatim>\<open>process.argv[2]\<close> and \<^verbatim>\<open>process.argv[3]\<close>, which
  are \<^verbatim>\<open>undefined\<close> (\<open>None\<close>) when the argument is absent.
\<close>

record 'p JarArgs =
  rootPath :: 'p
  targetPath :: 'p
  groupId :: js_string
  artifactId :: js_string
  version :: js_string

text \<open>
  The objects that travel from the transform to the zip stage: \<^verbatim>\<open>{ filename, path }\<close>
  for a file of the walk, and the \<^verbatim>\<open>ZipSource\<close> objects \<^verbatim>\<open>{ path, data }\<close> of the two
  generated entries.
\<close>

datatype zip_source =
    PathEntry (filename: js_string) (path: js_string)
  | DataEntry (path: js_string) (data: buffer)

text \<open>
  The manifest: a template literal with no substitution, whose continuation lines are
  indented by 17 blanks in the source.
\<close>

definition manifestText :: js_string where
  "manifestText =
     trimIndent
       (str ''Manifest-Version: 1.0\<newline>                 Archiver-Version: Plexus Archiver\<newline>                 Created-By: Keycloakify\<newline>                 Built-By: unknown\<newline>                 Build-Jdk: 19.0.0'')"

definition manifest :: zip_source where
  "manifest = DataEntry (str ''META-INF/MANIFEST.MF'') (Buffer_from manifestText)"

text \<open>
  The build properties. \<open>now\<close> is the text that \<^verbatim>\<open>${new Date()}\<close> yields: the wall clock
  at the call of \<open>jar\<close>, as \<^verbatim>\<open>Date.prototype.toString\<close> prints it. The substitutions are
  made first, \<open>trimIndent\<close> is applied to the result.
\<close>

definition pomPropsText :: "'p JarArgs \<Rightarrow> js_string \<Rightarrow> js_string" where
  "pomPropsText args now =
     trimIndent
       (str ''# Generated by keycloakify\<newline>                 # '' @ now
        @ str ''\<newline>                 artifactId='' @ artifactId args
        @ str ''\<newline>                 groupId='' @ groupId args
        @ str ''\<newline>                 version='' @ version args)"

definition pomProps :: "'p JarArgs \<Rightarrow> js_string \<Rightarrow> zip_source" where
  "pomProps args now =
     DataEntry
       (str ''META-INF/maven/'' @ groupId args @ str ''/'' @ artifactId args
        @ str ''/pom.properties'')
       (Buffer_from (pomPropsText args now))"

subsection \<open>The transform stream \<open>pathToRecord\<close>\<close>

text \<open>
  The stream is modelled by the trace of its \<^verbatim>\<open>this.push\<close> calls: \<open>Some x\<close> for an
  object, \<open>None\<close> for \<^verbatim>\<open>this.push(null)\<close>, the end-of-stream signal. The error kinds
  are those the specification names; \<^verbatim>\<open>jar.ts\<close> constructs none of them.
\<close>

datatype build_error =
    PathOutsideRootError
  | DuplicateEntryError
  | ArchiveTooLargeError
  | PayloadReadError
  | SinkWriteError

type_synonym pushes = "zip_source option list"

text \<open>
  \<^verbatim>\<open>transform: function (path, _, cb) {
      const filename = relative(rootPath, path).split(sep).join("/");
      this.push({ filename, path });
      cb();
  }\<close>

  The second component of the result is the argument handed to the callback:
  \<open>None\<close> for \<^verbatim>\<open>cb()\<close>, that is, the chunk was accepted without an error.
\<close>

definition transform ::
  "path_module \<Rightarrow> js_string JarArgs \<Rightarrow> js_string \<Rightarrow> pushes \<Rightarrow> pushes \<times> build_error option" where
  "transform pm args path' out =
     (let filename = js_join (str ''/'') (js_split (sep pm) (relative pm (rootPath args) path'))
      in (out @ [Some (PathEntry filename path')], None))"

text \<open>
  \<^verbatim>\<open>final: function () {
      this.push(manifest);
      this.push(pomProps);
      this.push(null);
  }\<close>
\<close>

definition final :: "js_string JarArgs \<Rightarrow> js_string \<Rightarrow> pushes \<Rightarrow> pushes" where
  "final args now out = ((out @ [Some manifest]) @ [Some (pomProps args now)]) @ [None]"

text \<open>
  The stream machinery calls \<open>transform\<close> once for every chunk of the source, in the
  order of arrival, stops at the first error handed to a callback, and calls \<open>final\<close>
  when the source has ended.
\<close>

fun write_chunks ::
  "path_module \<Rightarrow> js_string JarArgs \<Rightarrow> js_string list \<Rightarrow> pushes \<Rightarrow> build_error + pushes" where
  "write_chunks pm args [] out = Inr out"
| "write_chunks pm args (p # ps) out =
     (case transform pm args p out of
        (out', None) \<Rightarrow> write_chunks pm args ps out'
      | (out', Some e) \<Rightarrow> Inl e)"

definition pathToRecord ::
  "path_module \<Rightarrow> js_string JarArgs \<Rightarrow> js_string \<Rightarrow> js_string list \<Rightarrow> build_error + pushes" where
  "pathToRecord pm args now paths =
     (case write_chunks pm args paths [] of
        Inl e \<Rightarrow> Inl e
      | Inr out \<Rightarrow> Inr (final args now out))"

text \<open>
  The stream hands a callback to \<open>final\<close>, as it does to \<open>transform\<close>. The function
  above declares no parameter and its body calls no callback, while \<open>transform\<close> calls
  \<^verbatim>\<open>cb()\<close>: \<open>final_callback\<close> is what the callback of \<open>final\<close> receives.
\<close>

datatype 'e callback = NotCalled | Called "'e option"

definition final_callback :: "build_error callback" where
  "final_callback = NotCalled"

text \<open>
  \<^verbatim>\<open>// Create an async pipeline, wait until everything is fully processed
  await pipeline(Readable.from(walk(rootPath)), pathToRecord(), zip(),
                 createWriteStream(targetPath, { encoding: "binary" }));\<close>

  The promise of \<^verbatim>\<open>pipeline\<close>, which is the promise of \<open>jar\<close>, is rejected with the
  failure of a stage and fulfilled when every stage has finished. A transform stage has
  finished (Node.js emits \<^verbatim>\<open>finish\<close> for its writable side) when the callback handed to
  its \<open>final\<close> has been called without an error; until then the promise stays pending.
  The walk, the zip encoder and the file stream are outside this file: \<open>paths\<close> is what
  the walk yields, and \<open>downstream\<close> gives the failure of the zip stage or of the file
  stream on the objects they receive (\<open>None\<close> when both finish).
\<close>

datatype 'e promise = Fulfilled | Rejected 'e | Pending

definition jar_pipeline ::
  "path_module \<Rightarrow> js_string \<Rightarrow> js_string list \<Rightarrow> (pushes \<Rightarrow> build_error option)
     \<Rightarrow> js_string JarArgs \<Rightarrow> build_error promise" where
  "jar_pipeline pm now paths downstream args =
     (case pathToRecord pm args now paths of
        Inl e \<Rightarrow> Rejected e
      | Inr out \<Rightarrow>
          (case downstream out of
             Some e \<Rightarrow> Rejected e
           | None \<Rightarrow>
               (case final_callback of
                  NotCalled \<Rightarrow> Pending
                | Called None \<Rightarrow> Fulfilled
                | Called (Some e) \<Rightarrow> Rejected e)))"

subsection \<open>Standalone usage\<close>

text \<open>
  \<^verbatim>\<open>const main = () =>
      jar({ rootPath: process.argv[2], targetPath: process.argv[3],
            artifactId: process.env.ARTIFACT_ID ?? "artifact",
            groupId: process.env.GROUP_ID ?? "group",
            version: process.env.VERSION ?? "1.0.0" });\<close>

  \<open>argv\<close> is \<^verbatim>\<open>process.argv\<close> (the interpreter, the script, then the arguments of the
  command line), \<open>env\<close> is \<^verbatim>\<open>process.env\<close>. The outcome of the promise that \<open>jar\<close>
  returns is a parameter, since the walk, the zip encoder and the file system are outside
  this file: \<open>Inr\<close> when the pipeline has completed, \<open>Inl\<close> with the failure of the build
  when the promise is rejected.
\<close>

definition argv_at :: "js_string list \<Rightarrow> nat \<Rightarrow> js_string option" where
  "argv_at argv i = (if i < length argv then Some (argv ! i) else None)"

definition nullish :: "'a option \<Rightarrow> 'a \<Rightarrow> 'a" where
  "nullish v d = (case v of None \<Rightarrow> d | Some x \<Rightarrow> x)"

definition main ::
  "(js_string option JarArgs \<Rightarrow> 'e + unit) \<Rightarrow> js_string list \<Rightarrow> (string \<rightharpoonup> js_string)
     \<Rightarrow> 'e + unit" where
  "main jar argv env =
     jar \<lparr>rootPath = argv_at argv 2,
          targetPath = argv_at argv 3,
          groupId = nullish (env ''GROUP_ID'') (str ''group''),
          artifactId = nullish (env ''ARTIFACT_ID'') (str ''artifact''),
          version = nullish (env ''VERSION'') (str ''1.0.0'')\<rparr>"

text \<open>
  \<^verbatim>\<open>main().catch(e => console.error(e));\<close>

  The handler prints the failure; neither it nor anything else in the file assigns
  \<^verbatim>\<open>process.exitCode\<close> or calls \<^verbatim>\<open>process.exit\<close>. A process whose rejections are all
  handled ends with the status \<^verbatim>\<open>process.exitCode\<close>, or 0 when that is \<^verbatim>\<open>undefined\<close>.
\<close>

record 'e process =
  console_error :: "'e list"
  exitCode :: "int option"

definition standalone ::
  "(js_string option JarArgs \<Rightarrow> 'e + unit) \<Rightarrow> js_string list \<Rightarrow> (string \<rightharpoonup> js_string)
     \<Rightarrow> 'e process" where
  "standalone jar argv env =
     (case main jar argv env of
        Inr u \<Rightarrow> \<lparr>console_error = [], exitCode = None\<rparr>
      | Inl e \<Rightarrow> \<lparr>console_error = [e], exitCode = None\<rparr>)"

definition exit_status :: "'e process \<Rightarrow> int" where
  "exit_status p = nullish (exitCode p) 0"

subsection \<open>A concrete build\<close>

text \<open>
  The end-to-end scenario of the specification: group \<^verbatim>\<open>g\<close>, artifact \<^verbatim>\<open>a\<close>, version
  \<^verbatim>\<open>1.0.0\<close>; and a wall clock as Node.js prints it.
\<close>

definition scenario_args :: "js_string JarArgs" where
  "scenario_args =
     \<lparr>rootPath = str ''/work/theme'', targetPath = str ''/work/theme.jar'',
      groupId = str ''g'', artifactId = str ''a'', version = str ''1.0.0''\<rparr>"

definition scenario_now :: js_string where
  "scenario_now = str ''Mon Nov 02 2026 02:28:00 GMT+0000 (Coordinated Universal Time)''"

text \<open>A second build, which differs from the first in all four parameters.\<close>

definition other_args :: "js_string JarArgs" where
  "other_args =
     \<lparr>rootPath = str ''/work/theme'', targetPath = str ''/work/theme.jar'',
      groupId = str ''h'', artifactId = str ''b'', version = str ''2.0.0''\<rparr>"

definition other_now :: js_string where
  "other_now = str ''Tue Nov 03 2026 09:15:42 GMT+0000 (Coordinated Universal Time)''"

section \<open>Properties of the stream\<close>

lemma js_split_not_Nil: "js_split s xs \<noteq> []"
  by (induction xs) (auto split: list.splits)

lemma js_join_Cons_Cons: "js_join glue ((c # w) # ws) = c # js_join glue (w # ws)"
  by (cases ws) simp_all

lemma js_join_js_split:
  "js_join [t] (js_split s xs) = map (\<lambda>c. if c = s then t else c) xs"
proof (induction xs)
  case Nil
  show ?case by simp
next
  case (Cons c cs)
  obtain w ws where split: "js_split s cs = w # ws"
    using js_split_not_Nil [of s cs] by (cases "js_split s cs") auto
  with Cons show ?case
    by (simp add: js_join_Cons_Cons)
qed

lemma str_slash: "str ''/'' = [slash]"
  by (simp add: str_def)

lemma transform_eq:
  "transform pm args p out =
     (out @ [Some (PathEntry (map (\<lambda>c. if c = sep pm then slash else c)
                               (relative pm (rootPath args) p)) p)], None)"
  by (simp add: transform_def str_slash js_join_js_split)

lemma write_chunks_eq:
  "write_chunks pm args ps out =
     Inr (out @ map (\<lambda>p. Some (PathEntry (map (\<lambda>c. if c = sep pm then slash else c)
                                          (relative pm (rootPath args) p)) p)) ps)"
  by (induction ps arbitrary: out) (simp_all add: transform_eq)

lemma pathToRecord_eq:
  "pathToRecord pm args now paths =
     Inr (map (\<lambda>p. Some (PathEntry (map (\<lambda>c. if c = sep pm then slash else c)
                                     (relative pm (rootPath args) p)) p)) paths
          @ [Some manifest, Some (pomProps args now), None])"
  by (simp add: pathToRecord_def write_chunks_eq final_def)

section \<open>Properties of \<open>trimIndent\<close> and \<open>Buffer.from\<close>\<close>

lemma trimIndent_no_match: "\<not> indent_match s \<Longrightarrow> trimIndent s = s"
  by (induction s rule: indent_match.induct) auto

lemma trimIndent_append_no_match:
  "\<not> indent_match s \<Longrightarrow> \<exists>zs. trimIndent (s @ ys) = s @ zs"
  by (induction s rule: indent_match.induct) auto

lemma trimIndent_append_no_LF:
  "LF \<notin> set xs \<Longrightarrow> trimIndent (xs @ ys) = xs @ trimIndent ys"
  by (induction xs) auto

text \<open>
  A string in which the pattern does not match and which does not end in a line feed is
  left alone, whatever follows it.
\<close>

lemma trimIndent_append_kept:
  "\<not> indent_match x \<Longrightarrow> x = [] \<or> last x \<noteq> LF \<Longrightarrow> trimIndent (x @ ys) = x @ trimIndent ys"
  by (induction x rule: indent_match.induct) auto

text \<open>A match never extends over a code unit that is not white space.\<close>

lemma trimIndent_append_nonspace:
  "ys \<noteq> [] \<Longrightarrow> \<not> is_space (hd ys) \<Longrightarrow> trimIndent (xs @ ys) = trimIndent xs @ trimIndent ys"
proof (induction xs rule: trimIndent.induct)
  case 1
  then show ?case by simp
next
  case (2 c cs)
  show ?case
  proof (cases "c = LF \<and> cs \<noteq> [] \<and> is_space (hd cs)")
    case True
    then have m: "c = LF" "cs \<noteq> []" "is_space (hd cs)" by auto
    have ih: "trimIndent (dropWhile is_space cs @ ys)
                = trimIndent (dropWhile is_space cs) @ trimIndent ys"
      using 2(1) [OF True 2(3) 2(4)] .
    have dw: "dropWhile is_space (cs @ ys) = dropWhile is_space cs @ ys"
    proof (cases "\<forall>x\<in>set cs. is_space x")
      case True
      have "dropWhile is_space ys = ys"
        using 2(3) 2(4) by (cases ys) auto
      with True show ?thesis by (simp add: dropWhile_append)
    next
      case False
      then show ?thesis by (auto simp: dropWhile_append)
    qed
    from m ih dw show ?thesis by simp
  next
    case False
    have ih: "trimIndent (cs @ ys) = trimIndent cs @ trimIndent ys"
      using 2(2) [OF False 2(3) 2(4)] .
    show ?thesis
    proof (cases "cs = []")
      case True
      with 2(3) 2(4) show ?thesis by simp
    next
      case nonempty: False
      with False ih show ?thesis by auto
    qed
  qed
qed

lemma key_value_kept:
  assumes "\<not> indent_match v" and "key \<noteq> []" and "\<not> is_space (hd key)" and "LF \<notin> set key"
  shows "\<exists>post. trimIndent (xs @ key @ v @ ys) = trimIndent xs @ key @ v @ post"
proof -
  have "trimIndent (xs @ key @ v @ ys) = trimIndent xs @ trimIndent (key @ v @ ys)"
    using assms(2,3) by (intro trimIndent_append_nonspace) auto
  also have "trimIndent (key @ v @ ys) = key @ trimIndent (v @ ys)"
    using assms(4) by (rule trimIndent_append_no_LF)
  finally show ?thesis
    using trimIndent_append_no_match [OF assms(1), of ys] by auto
qed

lemma key_value_last:
  assumes "\<not> indent_match v" and "key \<noteq> []" and "\<not> is_space (hd key)" and "LF \<notin> set key"
  shows "trimIndent (xs @ key @ v) = trimIndent xs @ key @ v"
proof -
  have "trimIndent (xs @ key @ v) = trimIndent xs @ trimIndent (key @ v)"
    using assms(2,3) by (intro trimIndent_append_nonspace) auto
  also have "trimIndent (key @ v) = key @ trimIndent v"
    using assms(4) by (rule trimIndent_append_no_LF)
  finally show ?thesis
    by (simp add: trimIndent_no_match [OF assms(1)])
qed

lemma artifactId_key:
  "str ''\<newline>                 artifactId='' = str ''\<newline>                 '' @ str ''artifactId=''"
  "str ''artifactId='' \<noteq> []" "\<not> is_space (hd (str ''artifactId=''))"
  "LF \<notin> set (str ''artifactId='')"
  by (simp_all add: str_def is_space_def)

lemma groupId_key:
  "str ''\<newline>                 groupId='' = str ''\<newline>                 '' @ str ''groupId=''"
  "str ''groupId='' \<noteq> []" "\<not> is_space (hd (str ''groupId=''))"
  "LF \<notin> set (str ''groupId='')"
  by (simp_all add: str_def is_space_def)

lemma version_key:
  "str ''\<newline>                 version='' = str ''\<newline>                 '' @ str ''version=''"
  "str ''version='' \<noteq> []" "\<not> is_space (hd (str ''version=''))"
  "LF \<notin> set (str ''version='')"
  by (simp_all add: str_def is_space_def)

text \<open>The text up to the first substitution of a parameter, for a date of one line.\<close>

lemma pomPropsText_date:
  assumes "LF \<notin> set now"
  shows "pomPropsText args now
     = (str ''# Generated by keycloakify\<newline># '' @ now @ str ''\<newline>artifactId='')
       @ trimIndent (artifactId args @ str ''\<newline>                 groupId='' @ groupId args
                     @ str ''\<newline>                 version='' @ version args)"
  by (simp add: pomPropsText_def str_def is_space_def trimIndent_append_no_LF [OF assms])

lemma Buffer_from_ascii:
  "c < 0x80 \<Longrightarrow> Buffer_from (c # cs) = ucast c # Buffer_from cs"
  by (simp add: is_high_surrogate_def is_low_surrogate_def utf8_code_point_def
      word_le_nat_alt word_less_nat_alt)

lemma Buffer_from_ascii_append:
  "\<forall>c\<in>set xs. c < 0x80 \<Longrightarrow> Buffer_from (xs @ ys) = map ucast xs @ Buffer_from ys"
  by (induction xs) (simp_all add: Buffer_from_ascii del: Buffer_from.simps)

section \<open>Properties of the POSIX \<open>relative\<close>\<close>

text \<open>
  \<open>posix_resolve\<close> never yields the empty string, so the lengths \<open>length from - 1\<close> and
  \<open>length to - 1\<close> in \<open>posix_relative\<close> are those of the source.
\<close>

lemma posix_resolve_not_Nil: "posix_resolve cwd p \<noteq> []"
  by (simp add: posix_resolve_def Let_def str_def split: prod.splits)

lemma common_loop_agree:
  "\<forall>j. i \<le> j \<and> j < len \<longrightarrow> from ! (1 + j) = to ! (1 + j) \<Longrightarrow> i \<le> len \<Longrightarrow>
   common_loop from to len i l = (len, snd (common_loop from to len i l))"
proof (induction "from" to len i l rule: common_loop.induct)
  case (1 "from" to len i lastCommonSep)
  show ?case
  proof (cases "i < len")
    case True
    with 1 show ?thesis by (subst (1 2) common_loop.simps) auto
  next
    case False
    with 1 show ?thesis by (subst (1 2) common_loop.simps) auto
  qed
qed

lemma relative_under_root:
  assumes root: "posix_resolve cwd root = root"
      and sub: "posix_resolve cwd (root @ slash # rest) = root @ slash # rest"
  shows "posix_relative cwd root (root @ slash # rest) = rest"
proof -
  let ?to = "root @ slash # rest"
  have ne: "root \<noteq> []"
    using posix_resolve_not_Nil [of cwd root] root by simp
  then have len: "Suc (length root - 1) = length root"
    by (cases root) auto
  have agree: "\<forall>j. 0 \<le> j \<and> j < length root - 1 \<longrightarrow> root ! (1 + j) = ?to ! (1 + j)"
    by (auto simp: nth_append)
  obtain l where loop: "common_loop root ?to (length root - 1) 0 (- 1) = (length root - 1, l)"
    using common_loop_agree [OF agree, of "- 1"] by auto
  have lt: "length root - 1 < length root + length rest"
    using ne by (cases root) auto
  have ret: "at_common_end root ?to (length root - 1) (length root - 1) l = Return rest"
    using ne len lt by (simp add: at_common_end_def Let_def nth_append)
  have neq: "root \<noteq> ?to" by simp
  show ?thesis
    using neq ne lt loop ret
    by (simp add: posix_relative_def root sub Let_def del: common_loop.simps)
qed

lemma map_sep_slash: "map (\<lambda>c. if c = slash then slash else c) xs = xs"
  by (induction xs) auto

section \<open>The claims\<close>

text \<open>
  C2. For every finite sequence of paths, the pushes of the adapter are one object per
  path (none of them the end signal), then exactly the manifest, then the
  \<^verbatim>\<open>pom.properties\<close> entry, then the end-of-stream signal, and nothing after it.
\<close>

theorem final_pushes_manifest_properties_end:
  "\<exists>natural. pathToRecord pm args now paths =
       Inr (natural @ [Some manifest, Some (pomProps args now), None])
     \<and> length natural = length paths \<and> None \<notin> set natural"
  by (auto simp: pathToRecord_eq)

text \<open>
  C6. In every build the two generated entries, pushed behind the entries of the input
  paths, carry the archive paths \<^verbatim>\<open>META-INF/MANIFEST.MF\<close> and
  \<^verbatim>\<open>META-INF/maven/<groupId>/<artifactId>/pom.properties\<close>, in this order, before the end
  signal.
\<close>

theorem synthesized_entry_paths:
  "\<exists>out. pathToRecord pm args now paths = Inr out
     \<and> map (map_option path) (drop (length paths) out) =
         [Some (str ''META-INF/MANIFEST.MF''),
          Some (str ''META-INF/maven/'' @ groupId args @ str ''/'' @ artifactId args
                @ str ''/pom.properties''),
          None]"
  by (simp add: pathToRecord_eq manifest_def pomProps_def)

text \<open>
  C7. The first pushes of the adapter are exactly one \<^verbatim>\<open>{ filename, path }\<close> object per
  input path, in the order of the input: the list of their \<^verbatim>\<open>path\<close> fields is the input
  sequence itself, and each \<^verbatim>\<open>filename\<close> is computed from the path at the same position.
\<close>

theorem natural_records_follow_input_order:
  "\<exists>out. pathToRecord pm args now paths = Inr out
     \<and> take (length paths) out =
         map (\<lambda>p. Some (PathEntry (js_join (str ''/'')
                                     (js_split (sep pm) (relative pm (rootPath args) p))) p))
             paths
     \<and> map (map_option path) (take (length paths) out) = map Some paths"
  by (simp add: pathToRecord_eq str_slash js_join_js_split comp_def)

text \<open>
  C8, on the code. With no path at all the adapter raises no error and pushes exactly the
  manifest, the \<^verbatim>\<open>pom.properties\<close> entry and the end signal, as the claim says; but the
  build does not succeed: the callback of \<open>final\<close> is never called, so the promise of
  \<open>jar\<close> is never fulfilled, and it stays pending when the zip stage and the file stream
  finish.
\<close>

theorem empty_source_build_never_settles:
  "pathToRecord pm args now [] = Inr [Some manifest, Some (pomProps args now), None]
   \<and> jar_pipeline pm now [] downstream args \<noteq> Fulfilled
   \<and> jar_pipeline pm now [] (\<lambda>out. None) args = Pending"
  by (simp add: jar_pipeline_def pathToRecord_def final_def final_callback_def
      split: option.split)

text \<open>
  C9. Run standalone, the source directory is the first argument of the command line
  (\<^verbatim>\<open>process.argv[2]\<close>), the output file the second, and the variables
  \<^verbatim>\<open>GROUP_ID\<close>, \<^verbatim>\<open>ARTIFACT_ID\<close> and \<^verbatim>\<open>VERSION\<close> are replaced by \<^verbatim>\<open>"group"\<close>,
  \<^verbatim>\<open>"artifact"\<close> and \<^verbatim>\<open>"1.0.0"\<close> when they are unset.
\<close>

theorem standalone_arguments_and_defaults:
  "main jar (node # script # source # target # others) env =
     jar \<lparr>rootPath = Some source,
          targetPath = Some target,
          groupId = (case env ''GROUP_ID'' of None \<Rightarrow> str ''group'' | Some g \<Rightarrow> g),
          artifactId = (case env ''ARTIFACT_ID'' of None \<Rightarrow> str ''artifact'' | Some a \<Rightarrow> a),
          version = (case env ''VERSION'' of None \<Rightarrow> str ''1.0.0'' | Some v \<Rightarrow> v)\<rparr>"
  by (simp add: main_def argv_at_def nullish_def)

text \<open>
  C3, as the code has it. Of the two generated entries only the build properties are
  generated from the parameters: when the date text, the artifact and the group contain
  no line feed followed by white space and do not end in a line feed, and the version
  contains no line feed followed by white space, the data of \<^verbatim>\<open>pom.properties\<close> is the
  UTF-8 encoding of the five lines made of the date, the artifact, the group and the
  version. The manifest is a fixed text, in which none of the four parameters occurs.
\<close>

theorem pom_properties_generated_from_parameters:
  assumes "\<not> indent_match now" and "now = [] \<or> last now \<noteq> LF"
      and "\<not> indent_match (artifactId args)"
      and "artifactId args = [] \<or> last (artifactId args) \<noteq> LF"
      and "\<not> indent_match (groupId args)"
      and "groupId args = [] \<or> last (groupId args) \<noteq> LF"
      and "\<not> indent_match (version args)"
  shows "data (pomProps args now) =
           Buffer_from
             (str ''# Generated by keycloakify\<newline># '' @ now
              @ str ''\<newline>artifactId='' @ artifactId args
              @ str ''\<newline>groupId='' @ groupId args
              @ str ''\<newline>version='' @ version args)
       \<and> data manifest =
           Buffer_from
             (str ''Manifest-Version: 1.0\<newline>Archiver-Version: Plexus Archiver\<newline>Created-By: Keycloakify\<newline>Built-By: unknown\<newline>Build-Jdk: 19.0.0'')"
proof -
  have "pomPropsText args now =
          str ''# Generated by keycloakify\<newline># '' @ now
          @ str ''\<newline>artifactId='' @ artifactId args
          @ str ''\<newline>groupId='' @ groupId args
          @ str ''\<newline>version='' @ version args"
    by (simp add: pomPropsText_def str_def is_space_def
        trimIndent_append_kept [OF assms(1,2)] trimIndent_append_kept [OF assms(3,4)]
        trimIndent_append_kept [OF assms(5,6)] trimIndent_no_match [OF assms(7)])
  moreover have "manifestText =
      str ''Manifest-Version: 1.0\<newline>Archiver-Version: Plexus Archiver\<newline>Created-By: Keycloakify\<newline>Built-By: unknown\<newline>Build-Jdk: 19.0.0''"
    by (simp add: manifestText_def str_def is_space_def)
  ultimately show ?thesis
    by (simp add: pomProps_def manifest_def)
qed

theorem pom_properties_generated_from_parameters_witness:
  "\<not> indent_match scenario_now \<and> last scenario_now \<noteq> LF
   \<and> \<not> indent_match (artifactId scenario_args) \<and> last (artifactId scenario_args) \<noteq> LF
   \<and> \<not> indent_match (groupId scenario_args) \<and> last (groupId scenario_args) \<noteq> LF
   \<and> \<not> indent_match (version scenario_args)
   \<and> data (pomProps scenario_args scenario_now) =
       Buffer_from
         (str ''# Generated by keycloakify\<newline># '' @ scenario_now
          @ str ''\<newline>artifactId='' @ artifactId scenario_args
          @ str ''\<newline>groupId='' @ groupId scenario_args
          @ str ''\<newline>version='' @ version scenario_args)"
proof -
  have n: "\<not> indent_match scenario_now" and n': "last scenario_now \<noteq> LF"
    by (simp_all add: scenario_now_def str_def is_space_def)
  have a: "\<not> indent_match (artifactId scenario_args)"
    and a': "last (artifactId scenario_args) \<noteq> LF"
    and g: "\<not> indent_match (groupId scenario_args)"
    and g': "last (groupId scenario_args) \<noteq> LF"
    and v: "\<not> indent_match (version scenario_args)"
    by (simp_all add: scenario_args_def str_def is_space_def)
  from pom_properties_generated_from_parameters
    [OF n disjI2 [OF n'] a disjI2 [OF a'] g disjI2 [OF g'] v] n n' a a' g g' v
  show ?thesis by blast
qed

text \<open>
  C3 as stated fails for the manifest: two builds that differ in the group, the
  artifact, the version and the date push the same manifest, while their
  \<^verbatim>\<open>pom.properties\<close> entries differ.
\<close>

theorem manifest_ignores_parameters_counterexample:
  "groupId scenario_args \<noteq> groupId other_args
   \<and> artifactId scenario_args \<noteq> artifactId other_args
   \<and> version scenario_args \<noteq> version other_args
   \<and> scenario_now \<noteq> other_now
   \<and> final scenario_args scenario_now [] ! 0 = final other_args other_now [] ! 0
   \<and> final scenario_args scenario_now [] ! 1 \<noteq> final other_args other_now [] ! 1"
  by code_simp

text \<open>
  C4, as the code has it. When the build fails, the failure is printed with
  \<^verbatim>\<open>console.error\<close>, and the exit status of the process stays 0: the rejection is
  handled and nothing sets an exit code.
\<close>

theorem failure_is_reported_with_status_zero:
  assumes "main jar argv env = Inl e"
  shows "console_error (standalone jar argv env) = [e]
       \<and> exit_status (standalone jar argv env) = 0"
  using assms by (simp add: standalone_def exit_status_def nullish_def)

theorem failure_is_reported_with_status_zero_witness:
  "main (\<lambda>args. Inl PayloadReadError)
       [str ''node'', str ''jar.ts'', str ''/work/theme'', str ''/work/theme.jar''] Map.empty
     = Inl PayloadReadError
   \<and> console_error (standalone (\<lambda>args. Inl PayloadReadError)
         [str ''node'', str ''jar.ts'', str ''/work/theme'', str ''/work/theme.jar''] Map.empty)
     = [PayloadReadError]
   \<and> exit_status (standalone (\<lambda>args. Inl PayloadReadError)
         [str ''node'', str ''jar.ts'', str ''/work/theme'', str ''/work/theme.jar''] Map.empty)
     = 0"
proof -
  have failed: "main (\<lambda>args. Inl PayloadReadError)
       [str ''node'', str ''jar.ts'', str ''/work/theme'', str ''/work/theme.jar''] Map.empty
     = Inl PayloadReadError"
    by (simp add: main_def)
  from failure_is_reported_with_status_zero [OF failed] failed show ?thesis
    by blast
qed

text \<open>
  C4 as stated fails: after a read failure of a payload the exit status is not different
  from 0.
\<close>

theorem failure_exit_status_counterexample:
  "main (\<lambda>args. Inl PayloadReadError)
       [str ''node'', str ''jar.ts'', str ''/work/theme'', str ''/work/theme.jar''] Map.empty
     = Inl PayloadReadError
   \<and> \<not> exit_status (standalone (\<lambda>args. Inl PayloadReadError)
           [str ''node'', str ''jar.ts'', str ''/work/theme'', str ''/work/theme.jar'']
           Map.empty) \<noteq> 0"
  by (simp add: main_def standalone_def exit_status_def nullish_def)

text \<open>
  C1, as the code has it. The normalization never fails: for every path module, root
  path and raw path the transform accepts the chunk (\<^verbatim>\<open>cb()\<close> without an error) and
  pushes \<^verbatim>\<open>{ filename, path }\<close>, where \<open>filename\<close> is \<^verbatim>\<open>relative(rootPath, path)\<close> with
  every platform separator replaced by \<^verbatim>\<open>/\<close>. On POSIX, when the root and the raw path
  \<open>root/rest\<close> are resolved paths, \<open>filename\<close> is \<open>rest\<close>: the root prefix is stripped.
\<close>

theorem normalize_never_fails:
  assumes "posix_resolve cwd root = root"
      and "posix_resolve cwd (root @ slash # rest) = root @ slash # rest"
  shows "transform pm args p out =
           (out @ [Some (PathEntry (map (\<lambda>c. if c = sep pm then slash else c)
                                     (relative pm (rootPath args) p)) p)], None)
       \<and> transform (posix cwd) (args\<lparr>rootPath := root\<rparr>) (root @ slash # rest) out =
           (out @ [Some (PathEntry rest (root @ slash # rest))], None)"
  by (simp add: transform_eq posix_def relative_under_root [OF assms] map_sep_slash)

theorem normalize_never_fails_witness:
  "posix_resolve (str ''/work'') (str ''/work/theme'') = str ''/work/theme''
   \<and> posix_resolve (str ''/work'') (str ''/work/theme'' @ slash # str ''sub/b.txt'')
       = str ''/work/theme'' @ slash # str ''sub/b.txt''
   \<and> transform (posix (str ''/work'')) scenario_args (str ''/etc/passwd'') []
       = ([] @ [Some (PathEntry
                  (map (\<lambda>c. if c = sep (posix (str ''/work'')) then slash else c)
                     (relative (posix (str ''/work'')) (rootPath scenario_args)
                        (str ''/etc/passwd'')))
                  (str ''/etc/passwd''))],
          None)
   \<and> transform (posix (str ''/work'')) (scenario_args\<lparr>rootPath := str ''/work/theme''\<rparr>)
        (str ''/work/theme'' @ slash # str ''sub/b.txt'') []
       = ([] @ [Some (PathEntry (str ''sub/b.txt'')
                        (str ''/work/theme'' @ slash # str ''sub/b.txt''))],
          None)"
proof -
  have r: "posix_resolve (str ''/work'') (str ''/work/theme'') = str ''/work/theme''"
    by code_simp
  have s: "posix_resolve (str ''/work'') (str ''/work/theme'' @ slash # str ''sub/b.txt'')
             = str ''/work/theme'' @ slash # str ''sub/b.txt''"
    by code_simp
  from normalize_never_fails
    [OF r s, where pm = "posix (str ''/work'')" and args = scenario_args
       and p = "str ''/etc/passwd''" and out = "[]"] r s
  show ?thesis by blast
qed

text \<open>
  C1 as stated fails: the raw path \<^verbatim>\<open>/etc/passwd\<close> is not under the root
  \<^verbatim>\<open>/work/theme\<close>, yet the transform reports no \<open>PathOutsideRootError\<close> and pushes an
  entry with the archive path \<^verbatim>\<open>../../etc/passwd\<close>.
\<close>

theorem path_outside_root_counterexample:
  "snd (transform (posix (str ''/work'')) scenario_args (str ''/etc/passwd'') [])
     \<noteq> Some PathOutsideRootError
   \<and> fst (transform (posix (str ''/work'')) scenario_args (str ''/etc/passwd'') [])
     = [Some (PathEntry (str ''../../etc/passwd'') (str ''/etc/passwd''))]"
  by code_simp

text \<open>
  C5, as the code has it. When no line feed is immediately followed by a white-space
  code unit in \<open>groupId\<close>, \<open>artifactId\<close> and \<open>version\<close>, the three strings stand
  verbatim in the text of \<^verbatim>\<open>pom.properties\<close>, each behind its key, the version at the
  end of the text.
\<close>

theorem parameters_verbatim_without_indent:
  assumes "\<not> indent_match (artifactId args)"
      and "\<not> indent_match (groupId args)"
      and "\<not> indent_match (version args)"
  shows "sublist (str ''artifactId='' @ artifactId args) (pomPropsText args now)
       \<and> sublist (str ''groupId='' @ groupId args) (pomPropsText args now)
       \<and> suffix (str ''version='' @ version args) (pomPropsText args now)"
proof -
  let ?ind = "str ''\<newline>                 ''"
  let ?head = "str ''# Generated by keycloakify\<newline>                 # '' @ now"
  let ?a = "artifactId args" and ?g = "groupId args" and ?v = "version args"
  have whole: "pomPropsText args now =
      trimIndent (?head @ ?ind @ str ''artifactId='' @ ?a @ ?ind @ str ''groupId='' @ ?g
                  @ ?ind @ str ''version='' @ ?v)"
    by (simp only: pomPropsText_def artifactId_key(1) groupId_key(1) version_key(1)
        append_assoc)
  have "\<exists>post. trimIndent ((?head @ ?ind) @ str ''artifactId='' @ ?a
                   @ (?ind @ str ''groupId='' @ ?g @ ?ind @ str ''version='' @ ?v))
             = trimIndent (?head @ ?ind) @ str ''artifactId='' @ ?a @ post"
    by (rule key_value_kept [OF assms(1) artifactId_key(2-4)])
  then have a: "sublist (str ''artifactId='' @ ?a) (pomPropsText args now)"
    unfolding whole sublist_def by (metis append_assoc)
  have "\<exists>post. trimIndent ((?head @ ?ind @ str ''artifactId='' @ ?a @ ?ind)
                   @ str ''groupId='' @ ?g @ (?ind @ str ''version='' @ ?v))
             = trimIndent (?head @ ?ind @ str ''artifactId='' @ ?a @ ?ind)
               @ str ''groupId='' @ ?g @ post"
    by (rule key_value_kept [OF assms(2) groupId_key(2-4)])
  then have g: "sublist (str ''groupId='' @ ?g) (pomPropsText args now)"
    unfolding whole sublist_def by (metis append_assoc)
  have "trimIndent ((?head @ ?ind @ str ''artifactId='' @ ?a @ ?ind @ str ''groupId='' @ ?g
                     @ ?ind) @ str ''version='' @ ?v)
          = trimIndent (?head @ ?ind @ str ''artifactId='' @ ?a @ ?ind @ str ''groupId='' @ ?g
                        @ ?ind) @ str ''version='' @ ?v"
    by (rule key_value_last [OF assms(3) version_key(2-4)])
  then have v: "suffix (str ''version='' @ ?v) (pomPropsText args now)"
    unfolding whole suffix_def by (metis append_assoc)
  from a g v show ?thesis by simp
qed

theorem parameters_verbatim_without_indent_witness:
  "\<not> indent_match (artifactId scenario_args)
   \<and> \<not> indent_match (groupId scenario_args)
   \<and> \<not> indent_match (version scenario_args)
   \<and> sublist (str ''artifactId='' @ artifactId scenario_args)
        (pomPropsText scenario_args scenario_now)
   \<and> sublist (str ''groupId='' @ groupId scenario_args)
        (pomPropsText scenario_args scenario_now)
   \<and> suffix (str ''version='' @ version scenario_args)
        (pomPropsText scenario_args scenario_now)"
proof -
  have a: "\<not> indent_match (artifactId scenario_args)"
    and g: "\<not> indent_match (groupId scenario_args)"
    and v: "\<not> indent_match (version scenario_args)"
    by (simp_all add: scenario_args_def str_def is_space_def)
  from parameters_verbatim_without_indent [OF a g v, of scenario_now] a g v
  show ?thesis by blast
qed

text \<open>
  C5 as stated fails: the version \<^verbatim>\<open>"1\n 2"\<close> does not occur in the text, since
  \<open>trimIndent\<close> runs after the substitution and removes the blank behind the line feed;
  the text ends with the lines \<^verbatim>\<open>version=1\<close> and \<^verbatim>\<open>2\<close>.
\<close>

theorem indented_version_counterexample:
  "pomPropsText (scenario_args\<lparr>version := str ''1\<newline> 2''\<rparr>) scenario_now
     = str ''# Generated by keycloakify\<newline># Mon Nov 02 2026 02:28:00 GMT+0000 (Coordinated Universal Time)\<newline>artifactId=a\<newline>groupId=g\<newline>version=1\<newline>2''
   \<and> \<not> sublist (str ''1\<newline> 2'')
         (pomPropsText (scenario_args\<lparr>version := str ''1\<newline> 2''\<rparr>) scenario_now)"
  by code_simp

text \<open>
  C10. The bytes of \<^verbatim>\<open>pom.properties\<close> depend on the wall clock: for every choice of
  the build parameters, two calls one second apart produce different data.
\<close>

theorem clock_changes_pom_properties:
  "data (pomProps args (str ''Mon Nov 02 2026 02:28:00 GMT+0000 (Coordinated Universal Time)''))
   \<noteq> data (pomProps args (str ''Mon Nov 02 2026 02:28:01 GMT+0000 (Coordinated Universal Time)''))"
proof -
  let ?d0 = "str ''Mon Nov 02 2026 02:28:00 GMT+0000 (Coordinated Universal Time)''"
  let ?d1 = "str ''Mon Nov 02 2026 02:28:01 GMT+0000 (Coordinated Universal Time)''"
  let ?p0 = "str ''# Generated by keycloakify\<newline># '' @ ?d0 @ str ''\<newline>artifactId=''"
  let ?p1 = "str ''# Generated by keycloakify\<newline># '' @ ?d1 @ str ''\<newline>artifactId=''"
  let ?rest = "trimIndent (artifactId args @ str ''\<newline>                 groupId='' @ groupId args
        @ str ''\<newline>                 version='' @ version args)"
  have lf: "LF \<notin> set ?d0" "LF \<notin> set ?d1"
    by (simp_all add: str_def)
  have ascii: "\<forall>c\<in>set ?p0. c < 0x80" "\<forall>c\<in>set ?p1. c < 0x80"
    by (simp_all add: str_def)
  have differ: "map ucast ?p0 \<noteq> (map ucast ?p1 :: buffer)"
    by (simp add: str_def)
  have "data (pomProps args ?d0) = map ucast ?p0 @ Buffer_from ?rest"
    by (simp only: pomProps_def zip_source.sel pomPropsText_date [OF lf(1)]
        Buffer_from_ascii_append [OF ascii(1)])
  moreover have "data (pomProps args ?d1) = map ucast ?p1 @ Buffer_from ?rest"
    by (simp only: pomProps_def zip_source.sel pomPropsText_date [OF lf(2)]
        Buffer_from_ascii_append [OF ascii(2)])
  ultimately show ?thesis
    using differ by (simp only: append_same_eq) simp
qed

end
